theory Spec2Isabelle
  imports Complex_Main "HOL-Library.Char_ord" "HOL-Library.List_Lexorder"
begin

text \<open>
  A shallow embedding of the data engine of the protest dashboard (app.py): the table
  after the load, \<open>filter_data\<close>, \<open>aggregate_events_for_map\<close>, the metrics, series
  and outputs of the callback \<open>update_all\<close>, and \<open>download_csv\<close>. Tables are lists
  of rows in the order of the file; a null cell is \<open>None\<close>.
\<close>

section \<open>Text helpers of the Python runtime\<close>

text \<open>
  The dataset is read with the latin1 encoding, so every character of a cell is one
  code point below 256: a \<open>char\<close>. \<open>isspace\<close>, \<open>strip\<close> and \<open>lower\<close> are Python's
  \<open>str.isspace\<close>, \<open>str.strip()\<close> and \<open>str.lower()\<close> on that range.
\<close>

definition isspace :: "char \<Rightarrow> bool" where
  "isspace c = (let n = (of_char c :: nat) in
     (9 \<le> n \<and> n \<le> 13) \<or> (28 \<le> n \<and> n \<le> 32) \<or> n = 133 \<or> n = 160)"

definition strip :: "string \<Rightarrow> string" where
  "strip s = rev (dropWhile isspace (rev (dropWhile isspace s)))"

definition lower_char :: "char \<Rightarrow> char" where
  "lower_char c = (let n = (of_char c :: nat) in
     if (65 \<le> n \<and> n \<le> 90) \<or> (192 \<le> n \<and> n \<le> 222 \<and> n \<noteq> 215)
     then char_of (n + 32) else c)"

definition lower :: "string \<Rightarrow> string" where
  "lower s = map lower_char s"

text \<open>\<open>s.split(',')\<close>: the pieces between the commas, at least one piece.\<close>

fun split_comma :: "string \<Rightarrow> string list" where
  "split_comma [] = [[]]"
| "split_comma (c # cs) =
     (if c = CHR '','' then [] # split_comma cs
      else (case split_comma cs of [] \<Rightarrow> [[c]] | w # ws \<Rightarrow> (c # w) # ws))"

text \<open>\<open>sep.join(parts)\<close>.\<close>

fun join :: "string \<Rightarrow> string list \<Rightarrow> string" where
  "join sep [] = []"
| "join sep [x] = x"
| "join sep (x # y # ys) = x @ sep @ join sep (y # ys)"

text \<open>
  \<open>contains s t\<close>: the text \<open>t\<close> occurs in \<open>s\<close>. A pattern built from
  \<open>re.escape\<close>d terms joined by \<open>|\<close> matches exactly where one of the terms occurs.
\<close>

fun contains :: "string \<Rightarrow> string \<Rightarrow> bool" where
  "contains [] t = (t = [])"
| "contains (c # cs) t = (take (length t) (c # cs) = t \<or> contains cs t)"

definition digit :: "nat \<Rightarrow> char" where
  "digit d = ''0123456789'' ! d"

fun show_nat :: "nat \<Rightarrow> string" where
  "show_nat n = (if n < 10 then [digit n] else show_nat (n div 10) @ [digit (n mod 10)])"

declare show_nat.simps [simp del]

definition zfill :: "nat \<Rightarrow> string \<Rightarrow> string" where
  "zfill w s = replicate (w - length s) (CHR ''0'') @ s"

text \<open>The \<open>,\<close> format option: groups of three digits.\<close>

fun comma_nat :: "nat \<Rightarrow> string" where
  "comma_nat n = (if n < 1000 then show_nat n
     else comma_nat (n div 1000) @ '','' @ zfill 3 (show_nat (n mod 1000)))"

declare comma_nat.simps [simp del]

section \<open>Numbers\<close>

text \<open>
  A numeric cell is a float that may be NaN, pandas' null. The model keeps the value
  as an exact rational and writes NaN as \<open>None\<close>; rounding of the floating-point
  operations and the infinities are outside the model.
\<close>

type_synonym num = "rat option"

text \<open>Python's truth value of a float: NaN is true, only zero is false.\<close>

definition truthy :: "num \<Rightarrow> bool" where
  "truthy x = (case x of None \<Rightarrow> True | Some v \<Rightarrow> v \<noteq> 0)"

definition num_div :: "num \<Rightarrow> rat \<Rightarrow> num" where
  "num_div x k = map_option (\<lambda>v. v / k) x"

definition num_mul :: "num \<Rightarrow> rat \<Rightarrow> num" where
  "num_mul x k = map_option (\<lambda>v. v * k) x"

text \<open>\<open>Series.sum()\<close>, \<open>.mean()\<close>, \<open>.max()\<close>: nulls are skipped; the mean
  and the maximum of no value are NaN, the sum of no value is 0.\<close>

definition notna_values :: "num list \<Rightarrow> rat list" where
  "notna_values xs = List.map_filter id xs"

definition series_sum :: "num list \<Rightarrow> rat" where
  "series_sum xs = sum_list (notna_values xs)"

definition series_mean :: "num list \<Rightarrow> num" where
  "series_mean xs = (let vs = notna_values xs in
     if vs = [] then None else Some (sum_list vs / of_nat (length vs)))"

definition series_max :: "num list \<Rightarrow> num" where
  "series_max xs = (case notna_values xs of [] \<Rightarrow> None | v # vs \<Rightarrow> Some (fold max vs v))"

text \<open>Rounding to the nearest integer, ties to even, as float formatting does.\<close>

definition round_half_even :: "rat \<Rightarrow> int" where
  "round_half_even y = (let f = \<lfloor>y\<rfloor>; r = y - of_int f in
     if r < 1 / 2 then f else if 1 / 2 < r then f + 1 else if even f then f else f + 1)"

text \<open>
  \<open>format_f comma k x\<close> is \<open>f"{x:,.kf}"\<close> (with the comma option) or
  \<open>f"{x:.kf}"\<close> (without): NaN prints as \<open>nan\<close>.
\<close>

definition format_f :: "bool \<Rightarrow> nat \<Rightarrow> num \<Rightarrow> string" where
  "format_f comma k x = (case x of
       None \<Rightarrow> ''nan''
     | Some v \<Rightarrow>
         (let scaled = nat (round_half_even (\<bar>v\<bar> * 10 ^ k));
              ip = scaled div 10 ^ k;
              fp = scaled mod 10 ^ k
          in (if v < 0 then ''-'' else '''')
             @ (if comma then comma_nat ip else show_nat ip)
             @ (if k = 0 then '''' else ''.'' @ zfill k (show_nat fp))))"

text \<open>
  \<open>str\<close> of a float, as \<open>astype(str)\<close> produces it: sign, integer digits, a
  point and the decimal digits of the fraction (\<open>3.0\<close>, \<open>2.5\<close>), \<open>nan\<close> for
  NaN. Exponent notation for very large or small magnitudes is not modelled.
\<close>

fun frac_digits :: "nat \<Rightarrow> rat \<Rightarrow> string" where
  "frac_digits 0 x = []"
| "frac_digits (Suc n) x = (let y = x * 10; d = \<lfloor>y\<rfloor> in
     digit (nat d) # (if y = of_int d then [] else frac_digits n (y - of_int d)))"

definition float_str :: "num \<Rightarrow> string" where
  "float_str x = (case x of
       None \<Rightarrow> ''nan''
     | Some v \<Rightarrow> (if v < 0 then ''-'' else '''') @ show_nat (nat \<lfloor>\<bar>v\<bar>\<rfloor>)
                 @ ''.'' @ frac_digits 17 (\<bar>v\<bar> - of_int \<lfloor>\<bar>v\<bar>\<rfloor>))"

text \<open>\<open>str\<close> of a text cell: a null cell (NaN) prints as \<open>nan\<close>.\<close>

definition py_str :: "string option \<Rightarrow> string" where
  "py_str x = (case x of None \<Rightarrow> ''nan'' | Some s \<Rightarrow> s)"

section \<open>Calendar dates\<close>

record date =
  year :: nat
  month :: nat
  day :: nat

text \<open>\<open>date.toordinal()\<close>: the proleptic Gregorian day number.\<close>

definition is_leap :: "nat \<Rightarrow> bool" where
  "is_leap y = (y mod 4 = 0 \<and> (y mod 100 \<noteq> 0 \<or> y mod 400 = 0))"

definition days_before_year :: "nat \<Rightarrow> nat" where
  "days_before_year y = (let p = y - 1 in p * 365 + p div 4 - p div 100 + p div 400)"

definition days_before_month :: "nat \<Rightarrow> nat \<Rightarrow> nat" where
  "days_before_month y m =
     [0, 0, 31, 59, 90, 120, 151, 181, 212, 243, 273, 304, 334] ! m
     + (if 2 < m \<and> is_leap y then 1 else 0)"

definition toordinal :: "date \<Rightarrow> int" where
  "toordinal d = int (days_before_year (year d) + days_before_month (year d) (month d) + day d)"

text \<open>\<open>str(date)\<close>: \<open>YYYY-MM-DD\<close>.\<close>

definition date_str :: "date \<Rightarrow> string" where
  "date_str d = zfill 4 (show_nat (year d)) @ ''-'' @ zfill 2 (show_nat (month d))
                @ ''-'' @ zfill 2 (show_nat (day d))"

section \<open>The dataset\<close>

text \<open>
  One row of the table \<open>df\<close> as it stands after the module-level load (lines 17 to
  36 of app.py): \<open>date\<close> went through \<open>to_datetime(errors='coerce')\<close> and is a
  calendar date or NaT (\<open>None\<close>); \<open>size_mean\<close> and the five outcome counts went
  through \<open>to_numeric(errors='coerce')\<close> and are numbers or NaN, so a text such as
  a placeholder word is already NaN; \<open>targets\<close> and \<open>organizations\<close> went through
  \<open>astype(str).str.lower()\<close> and are never null. The other text cells are read as
  they are, NaN (\<open>None\<close>) where the cell is empty. \<open>location_label\<close> is the column
  that \<open>filter_data\<close> adds; it is \<open>None\<close> where the column is not there.
  The column \<open>notes\<close> is the field \<open>notes_col\<close>.
\<close>

record row =
  title :: "string option"
  date :: "date option"
  state :: "string option"
  organizations :: string
  targets :: string
  location :: "string option"
  locality :: "string option"
  lat :: num
  lon :: num
  size_mean :: num
  participant_injuries :: num
  police_injuries :: num
  arrests :: num
  participant_deaths :: num
  police_deaths :: num
  property_damage :: "string option"
  notables :: "string option"
  claims_summary :: "string option"
  participant_measures :: "string option"
  police_measures :: "string option"
  notes_col :: "string option"
  location_label :: "string option"

text \<open>
  Line 21, \<open>df['participants_numeric'] = df['size_mean']\<close>, copies the column; no
  later statement writes to either, so the copy is read through \<open>size_mean\<close>.
\<close>

definition participants_numeric :: "row \<Rightarrow> num" where
  "participants_numeric r = size_mean r"

text \<open>A DataFrame: the column names in order, and the rows in order.\<close>

record frame =
  columns :: "string list"
  rows :: "row list"

text \<open>\<open>frame[c] = ...\<close>: an existing column keeps its place, a new one goes last.\<close>

definition assign_col :: "string \<Rightarrow> string list \<Rightarrow> string list" where
  "assign_col c cols = (if c \<in> set cols then cols else cols @ [c])"

text \<open>
  The columns of \<open>df\<close> from the header of the CSV file: the load adds
  \<open>participants_numeric\<close>; every other assignment of the load writes to a column it
  has just read.
\<close>

definition load_columns :: "string list \<Rightarrow> string list" where
  "load_columns header = assign_col ''participants_numeric'' header"

section \<open>The filter specification\<close>

text \<open>
  The six arguments of \<open>filter_data\<close>. A date bound is \<open>None\<close> where the argument
  is \<open>None\<close> or the empty text (both false in \<open>if start_date and end_date\<close>),
  otherwise the calendar date that pandas reads from the text. \<open>org_search\<close> is
  \<open>None\<close> for Python's \<open>None\<close>.
\<close>

record filter_spec =
  start_date :: "date option"
  end_date :: "date option"
  size_filter :: string
  org_search :: "string option"
  state_filter :: "string list"
  any_outcomes_filter :: "string list"

section \<open>The display label\<close>

text \<open>
  \<open>best_location\<close> as \<open>filter_data\<close> defines it (lines 564 to 573). The columns
  \<open>location\<close>, \<open>locality\<close> and \<open>state\<close> are columns of the file, so
  \<open>row.get\<close> finds them and its default is not used; \<open>str\<close> of a null cell is
  \<open>nan\<close>.
\<close>

definition filter_data_best_location :: "row \<Rightarrow> string" where
  "filter_data_best_location r =
     (let loc = strip (py_str (location r)) in
      if loc \<noteq> [] \<and> lower loc \<noteq> ''nan'' then loc
      else let loc2 = strip (py_str (locality r)) in
        if loc2 \<noteq> [] \<and> lower loc2 \<noteq> ''nan'' then loc2
        else py_str (state r) @ '', ''
             @ (case date r of Some d \<Rightarrow> date_str d | None \<Rightarrow> []))"

text \<open>\<open>best_location\<close> as \<open>aggregate_events_for_map\<close> defines it (lines 586 to 595).\<close>

definition aggregate_best_location :: "row \<Rightarrow> string" where
  "aggregate_best_location r =
     (let loc = strip (py_str (location r)) in
      if loc \<noteq> [] \<and> lower loc \<noteq> ''nan'' then loc
      else let loc2 = strip (py_str (locality r)) in
        if loc2 \<noteq> [] \<and> lower loc2 \<noteq> ''nan'' then loc2
        else py_str (state r) @ '', ''
             @ (case date r of Some d \<Rightarrow> date_str d | None \<Rightarrow> ''Unknown''))"

section \<open>filter_data\<close>

text \<open>The date comparison of line 526; a row without a date fails it.\<close>

definition date_mask :: "filter_spec \<Rightarrow> row \<Rightarrow> bool" where
  "date_mask spec r = (case (start_date spec, end_date spec) of
       (Some s, Some e) \<Rightarrow>
         (case date r of None \<Rightarrow> False
          | Some d \<Rightarrow> toordinal s \<le> toordinal d \<and> toordinal d \<le> toordinal e)
     | _ \<Rightarrow> True)"

definition size_mask :: "filter_spec \<Rightarrow> row \<Rightarrow> bool" where
  "size_mask spec r =
     (if size_filter spec = ''has'' then size_mean r \<noteq> None
      else if size_filter spec = ''no'' then size_mean r = None
      else True)"

definition org_terms :: "string \<Rightarrow> string list" where
  "org_terms s = map (\<lambda>t. lower (strip t)) (filter (\<lambda>t. strip t \<noteq> []) (split_comma s))"

definition org_mask :: "filter_spec \<Rightarrow> row \<Rightarrow> bool" where
  "org_mask spec r = (case org_search spec of
       None \<Rightarrow> True
     | Some s \<Rightarrow>
         (if s = [] then True
          else let terms = org_terms s in
            if terms = [] then True
            else list_ex (contains (organizations r)) terms))"

definition state_mask :: "filter_spec \<Rightarrow> row \<Rightarrow> bool" where
  "state_mask spec r =
     (if state_filter spec = [] then True
      else (case state r of None \<Rightarrow> False | Some s \<Rightarrow> s \<in> set (state_filter spec)))"

text \<open>
  The three conjuncts of a numeric outcome flag: \<open>notna()\<close>, the comparison of
  \<open>astype(str).str.lower()\<close> with the placeholder word, and
  \<open>to_numeric(...).fillna(0) > 0\<close>.
\<close>

definition notna :: "num \<Rightarrow> bool" where
  "notna x = (x \<noteq> None)"

definition not_unspecified :: "num \<Rightarrow> bool" where
  "not_unspecified x = (lower (float_str x) \<noteq> ''unspecified'')"

definition fillna0 :: "num \<Rightarrow> rat" where
  "fillna0 x = (case x of None \<Rightarrow> 0 | Some v \<Rightarrow> v)"

text \<open>One pass of the loop of lines 540 to 552; a name it does not know changes nothing.\<close>

definition outcome_mask :: "string \<Rightarrow> row \<Rightarrow> bool" where
  "outcome_mask outcome r =
     (if outcome = ''arrests_any'' then
        notna (arrests r) \<and> not_unspecified (arrests r) \<and> 0 < fillna0 (arrests r)
      else if outcome = ''participant_injuries_any'' then
        notna (participant_injuries r) \<and> not_unspecified (participant_injuries r)
        \<and> 0 < fillna0 (participant_injuries r)
      else if outcome = ''police_injuries_any'' then
        notna (police_injuries r) \<and> 0 < fillna0 (police_injuries r)
      else if outcome = ''property_damage_any'' then
        property_damage r \<noteq> None \<and> strip (py_str (property_damage r)) \<noteq> []
      else if outcome = ''participant_deaths_any'' then
        notna (participant_deaths r) \<and> 0 < fillna0 (participant_deaths r)
      else if outcome = ''police_deaths_any'' then
        notna (police_deaths r) \<and> 0 < fillna0 (police_deaths r)
      else True)"

text \<open>
  The mask of lines 522 to 552: the four vectorised conditions, then \<open>mask &= ...\<close>
  once for each selected outcome name, in order.
\<close>

definition mask :: "filter_spec \<Rightarrow> row \<Rightarrow> bool" where
  "mask spec r = fold (\<lambda>outcome m. m \<and> outcome_mask outcome r) (any_outcomes_filter spec)
     (date_mask spec r \<and> size_mask spec r \<and> org_mask spec r \<and> state_mask spec r)"

definition required_cols :: "string list" where
  "required_cols = [''lat'', ''lon'', ''date'', ''size_mean'', ''participants_numeric'',
     ''title'', ''organizations'']"

text \<open>
  Lines 558 to 561: a required column that is missing is added, filled with NaN. The
  load has already read or written \<open>date\<close>, \<open>size_mean\<close>, \<open>participants_numeric\<close>
  and \<open>organizations\<close>, so only \<open>lat\<close>, \<open>lon\<close> and \<open>title\<close> can be missing.
\<close>

definition fill_required :: "string list \<Rightarrow> row \<Rightarrow> row" where
  "fill_required cols r =
     (let r1 = (if ''lat'' \<in> set cols then r else r\<lparr>lat := None\<rparr>);
          r2 = (if ''lon'' \<in> set cols then r1 else r1\<lparr>lon := None\<rparr>)
      in if ''title'' \<in> set cols then r2 else r2\<lparr>title := None\<rparr>)"

text \<open>
  Line 515 memoizes \<open>filter_data\<close> too. Its key is made from the text of its six
  arguments, which are texts and lists of texts and so are determined by it, and the
  table \<open>df\<close> is never written after the load: a call served from the store
  returns what the body computes. The model is the body.
\<close>

definition filter_data :: "frame \<Rightarrow> filter_spec \<Rightarrow> frame" where
  "filter_data df spec =
     (let kept = filter (mask spec) (rows df);
          filled = map (fill_required (columns df)) kept;
          cols = fold assign_col required_cols (columns df)
      in \<lparr>columns = assign_col ''location_label'' cols,
          rows = map (\<lambda>r. r\<lparr>location_label := Some (filter_data_best_location r)\<rparr>) filled\<rparr>)"

section \<open>aggregate_events_for_map\<close>

text \<open>Lines 598 and 599: the label of a row on the map, an empty label replaced.\<close>

definition map_label :: "row \<Rightarrow> string" where
  "map_label r = (let l = aggregate_best_location r in if l = [] then ''Unknown'' else l)"

text \<open>Lines 602 to 609: the hover line of one event.\<close>

definition event_label :: "row \<Rightarrow> string" where
  "event_label r =
     (if title r \<noteq> None \<and> lower (strip (py_str (title r))) \<noteq> ''nan''
         \<and> strip (py_str (title r)) \<noteq> []
      then py_str (title r) else ''Unknown'')
     @ '' ('' @ (case date r of Some d \<Rightarrow> date_str d | None \<Rightarrow> ''Unknown'') @ '')<br>''
     @ ''Org: ''
     @ (if strip (organizations r) \<noteq> [] \<and> lower (strip (organizations r)) \<noteq> ''nan''
        then organizations r else ''Unknown'')"

text \<open>Line 612, \<open>dropna(subset=['lat', 'lon'])\<close>, keeps the rows that pass this test.\<close>

definition geolocatable :: "row \<Rightarrow> bool" where
  "geolocatable r = (lat r \<noteq> None \<and> lon r \<noteq> None)"

record agg_row =
  agg_location_label :: string
  agg_lat :: num
  agg_lon :: num
  agg_count :: nat
  agg_event_list :: string
  agg_title :: string
  agg_size_mean :: num
  agg_hover :: string
  agg_text :: string

text \<open>The \<open>first\<close> aggregation: the first value of the group that is not null.\<close>

definition first_valid :: "num list \<Rightarrow> num" where
  "first_valid xs = (case notna_values xs of [] \<Rightarrow> None | v # _ \<Rightarrow> Some v)"

definition title_or_unknown :: "row \<Rightarrow> string" where
  "title_or_unknown r = (case title r of None \<Rightarrow> ''Unknown''
     | Some t \<Rightarrow> if t = [] then ''Unknown'' else t)"

text \<open>One output row of lines 615 to 635, from the label and the rows of its group.\<close>

definition agg_group :: "string \<Rightarrow> row list \<Rightarrow> agg_row" where
  "agg_group l g =
     (let event_list = join ''<br><br>'' (map event_label g) in
      \<lparr>agg_location_label = l,
       agg_lat = first_valid (map lat g),
       agg_lon = first_valid (map lon g),
       agg_count = length g,
       agg_event_list = event_list,
       agg_title = join ''; '' (map title_or_unknown g),
       agg_size_mean = series_mean (map size_mean g),
       agg_hover = ''<b>'' @ l @ ''</b><br>'' @ ''Events at this site: '' @ show_nat (length g)
                   @ ''<br><br>'' @ ''<b>Events:</b><br>'' @ event_list,
       agg_text = l\<rparr>)"

text \<open>The rows of the group of a label, in the order of the table.\<close>

definition group_rows :: "string \<Rightarrow> row list \<Rightarrow> row list" where
  "group_rows l rs = filter (\<lambda>r. map_label r = l) rs"

text \<open>
  The body of the function, lines 583 to 637. \<open>groupby\<close> puts the groups in the
  sorted order of their keys. A table without a geolocatable row has no group: the
  result is the empty table, to which \<open>apply\<close> adds an empty \<open>hover\<close> column.
\<close>

definition aggregate_events_for_map_uncached :: "frame \<Rightarrow> agg_row list" where
  "aggregate_events_for_map_uncached dff_map =
     (let df_map = filter geolocatable (rows dff_map);
          keys = sort (remdups (map map_label df_map))
      in map (\<lambda>l. agg_group l (group_rows l df_map)) keys)"

text \<open>
  Line 581 decorates the function with \<open>@cache.memoize(timeout=120)\<close>: the result is
  stored under a key made from the text of the argument, \<open>repr\<close> of the table, and a
  later call with the same key is served from the store for 120 seconds. The text of a
  table of more than 60 rows (pandas' \<open>display.max_rows\<close>) shows its first five and
  its last five rows and its shape, and leaves the rows between out. The key of the
  model is what the text is made from: the columns, the number of rows and the rows
  shown. The text also shows the index labels of these rows and shortens long cells,
  which the model does not follow; the example of two tables with one key below is one
  where the rows shown carry the same index labels. An entry that has timed out is an
  entry that is not in the store.
\<close>

definition shown_rows :: "row list \<Rightarrow> row list" where
  "shown_rows rs = (if length rs \<le> 60 then rs else take 5 rs @ drop (length rs - 5) rs)"

type_synonym frame_key = "string list \<times> nat \<times> row list"

definition cache_key :: "frame \<Rightarrow> frame_key" where
  "cache_key dff = (columns dff, length (rows dff), shown_rows (rows dff))"

type_synonym agg_cache = "frame_key \<rightharpoonup> agg_row list"

text \<open>The decorated function: the result, and the store after the call.\<close>

definition aggregate_events_for_map :: "agg_cache \<Rightarrow> frame \<Rightarrow> agg_row list \<times> agg_cache" where
  "aggregate_events_for_map cache dff_map =
     (case cache (cache_key dff_map) of
        Some agg \<Rightarrow> (agg, cache)
      | None \<Rightarrow>
          (let agg = aggregate_events_for_map_uncached dff_map
           in (agg, cache(cache_key dff_map \<mapsto> agg))))"

section \<open>update_all: the metrics\<close>

definition US_POPULATION :: rat where
  "US_POPULATION = 340100000"

definition has_col :: "string \<Rightarrow> frame \<Rightarrow> bool" where
  "has_col c dff = (c \<in> set (columns dff))"

definition total_events :: "frame \<Rightarrow> nat" where
  "total_events dff = length (rows dff)"

text \<open>The day number of a row's date; the table holds calendar dates.\<close>

definition day_of :: "row \<Rightarrow> int option" where
  "day_of r = map_option toordinal (date r)"

definition on_day :: "int \<Rightarrow> row list \<Rightarrow> row list" where
  "on_day d rs = filter (\<lambda>r. day_of r = Some d) rs"

text \<open>
  \<open>dff.groupby('date')['size_mean'].sum()\<close>: one sum for each date that occurs,
  rows without a date left out, a group without a size summing to 0.
\<close>

definition day_sums :: "frame \<Rightarrow> num list" where
  "day_sums dff = map (\<lambda>d. Some (series_sum (map size_mean (on_day d (rows dff)))))
     (sort (remdups (List.map_filter day_of (rows dff))))"

definition total_participants :: "frame \<Rightarrow> rat" where
  "total_participants dff =
     (if has_col ''size_mean'' dff then series_sum (map size_mean (rows dff)) else 0)"

definition peak_day :: "frame \<Rightarrow> num" where
  "peak_day dff = (if has_col ''size_mean'' dff then series_max (day_sums dff) else Some 0)"

definition percent_us_pop :: "frame \<Rightarrow> num" where
  "percent_us_pop dff =
     (if truthy (peak_day dff) then num_mul (num_div (peak_day dff) US_POPULATION) 100
      else Some 0)"

definition mean_size :: "frame \<Rightarrow> num" where
  "mean_size dff =
     (if has_col ''size_mean'' dff then series_mean (map size_mean (rows dff)) else Some 0)"

definition percent_no_size :: "frame \<Rightarrow> rat" where
  "percent_no_size dff =
     (if 0 < total_events dff \<and> has_col ''size_mean'' dff
      then 100 * of_nat (length (filter (\<lambda>r. size_mean r = None) (rows dff)))
           / of_nat (total_events dff)
      else 0)"

definition all_null :: "('a option) list \<Rightarrow> bool" where
  "all_null xs = list_all (\<lambda>x. x = None) xs"

definition largest_event :: "frame \<Rightarrow> num" where
  "largest_event dff =
     (if has_col ''size_mean'' dff \<and> \<not> all_null (map size_mean (rows dff))
      then series_max (map size_mean (rows dff)) else Some 0)"

definition largest_day :: "frame \<Rightarrow> num" where
  "largest_day dff =
     (if has_col ''size_mean'' dff \<and> \<not> all_null (map size_mean (rows dff))
      then series_max (day_sums dff) else Some 0)"

text \<open>The four cards: the text shown and its caption.\<close>

definition kpis :: "frame \<Rightarrow> (string \<times> string) list" where
  "kpis dff =
     [(comma_nat (total_events dff), ''Total Events''),
      (format_f False 4 (percent_us_pop dff) @ ''%'',
       ''Largest Daily Participant Count as % of US population:''),
      (format_f False 1 (Some (percent_no_size dff)) @ ''%'', ''Events Missing Size''),
      (format_f True 0 (mean_size dff), ''Average Participant Count'')]"

section \<open>update_all: the map\<close>

text \<open>
  The map figure of lines 797 to 838: a trace for the groups with a mean size, with
  its marker size reference, and a trace for the groups without; each is there only
  when it has a group.
\<close>

record map_fig =
  has_size_trace :: "(agg_row list \<times> rat) option"
  no_size_trace :: "agg_row list option"

text \<open>Lines 804 and 805; a comparison with NaN is false.\<close>

definition sizeref :: "agg_row list \<Rightarrow> rat" where
  "sizeref has_size =
     (case series_max (map agg_size_mean has_size) of
        None \<Rightarrow> 1
      | Some max_size \<Rightarrow> if 0 < max_size then 2 * max_size / 50 ^ 2 else 1)"

definition fig_map :: "agg_row list \<Rightarrow> map_fig" where
  "fig_map agg_map =
     (let has_size = filter (\<lambda>g. agg_size_mean g \<noteq> None) agg_map;
          no_size = filter (\<lambda>g. agg_size_mean g = None) agg_map
      in \<lparr>has_size_trace = (if has_size \<noteq> [] then Some (has_size, sizeref has_size) else None),
          no_size_trace = (if no_size \<noteq> [] then Some no_size else None)\<rparr>)"

section \<open>update_all: the time series\<close>

text \<open>
  \<open>resample('D')\<close> makes one bucket for each calendar day from the first to the last
  date of the rows it is given, also for the days without a row; rows without a date
  fall in no bucket.
\<close>

definition day_span :: "row list \<Rightarrow> int list" where
  "day_span rs = (let ds = List.map_filter day_of rs in
     if ds = [] then [] else [Min (set ds) .. Max (set ds)])"

text \<open>Line 858: \<open>dff[['date', 'participants_numeric']].dropna()\<close>.\<close>

definition momentum_rows :: "frame \<Rightarrow> row list" where
  "momentum_rows dff = filter (\<lambda>r. date r \<noteq> None \<and> participants_numeric r \<noteq> None) (rows dff)"

record momentum_row =
  m_date :: int
  m_sum :: rat
  m_count :: nat
  momentum :: rat
  alt_momentum :: num

text \<open>\<open>rolling(7).sum()\<close>: NaN until seven values are there.\<close>

definition rolling7 :: "rat list \<Rightarrow> nat \<Rightarrow> num" where
  "rolling7 xs i = (if i < 6 then None else Some (sum_list (take 7 (drop (i - 6) xs))))"

text \<open>
  Lines 859 to 862: for each day \<open>sum\<close> adds the values of the column and \<open>count\<close>
  counts its values that are not null.
\<close>

definition dff_momentum :: "frame \<Rightarrow> momentum_row list" where
  "dff_momentum dff =
     (let kept = momentum_rows dff;
          days = day_span kept;
          totals = map (\<lambda>d. series_sum (map participants_numeric (on_day d kept))) days
      in map (\<lambda>i.
           (let d = days ! i;
                s = totals ! i;
                c = length (notna_values (map participants_numeric (on_day d kept)))
            in \<lparr>m_date = d, m_sum = s, m_count = c, momentum = s * of_nat c,
                alt_momentum = rolling7 totals i\<rparr>))
         [0 ..< length days])"

text \<open>
  \<open>np.polyfit(x, y, 1)\<close> followed by \<open>np.polyval\<close>: the least-squares line through
  the points, evaluated at their abscissas.
\<close>

definition polyfit1 :: "(rat \<times> rat) list \<Rightarrow> rat \<times> rat" where
  "polyfit1 pts =
     (let n = of_nat (length pts);
          sx = sum_list (map fst pts);
          sy = sum_list (map snd pts);
          sxx = sum_list (map (\<lambda>p. fst p * fst p) pts);
          sxy = sum_list (map (\<lambda>p. fst p * snd p) pts);
          slope = (n * sxy - sx * sy) / (n * sxx - sx * sx)
      in (slope, (sy - slope * sx) / n))"

definition trendline :: "momentum_row list \<Rightarrow> (int \<times> rat) list option" where
  "trendline ms =
     (if 1 < length ms then
        (let coeffs = polyfit1 (map (\<lambda>m. (of_int (m_date m), momentum m)) ms)
         in Some (map (\<lambda>m. (m_date m, fst coeffs * of_int (m_date m) + snd coeffs)) ms))
      else None)"

record momentum_fig =
  momentum_trace :: "(int \<times> rat) list"
  alt_momentum_trace :: "(int \<times> num) list"
  trendline_trace :: "(int \<times> rat) list option"

definition fig_momentum :: "frame \<Rightarrow> momentum_fig" where
  "fig_momentum dff =
     (let ms = dff_momentum dff in
      \<lparr>momentum_trace = map (\<lambda>m. (m_date m, momentum m)) ms,
       alt_momentum_trace = map (\<lambda>m. (m_date m, alt_momentum m)) ms,
       trendline_trace = trendline ms\<rparr>)"

text \<open>Lines 913 and 930: \<open>resample('D').size()\<close>, the number of rows of each day.\<close>

definition dff_daily :: "frame \<Rightarrow> (int \<times> nat) list" where
  "dff_daily dff = map (\<lambda>d. (d, length (on_day d (rows dff)))) (day_span (rows dff))"

fun cumsum_from :: "nat \<Rightarrow> (int \<times> nat) list \<Rightarrow> (int \<times> nat) list" where
  "cumsum_from acc [] = []"
| "cumsum_from acc ((d, c) # xs) = (d, acc + c) # cumsum_from (acc + c) xs"

definition dff_cum :: "frame \<Rightarrow> (int \<times> nat) list" where
  "dff_cum dff = cumsum_from 0 (dff_daily dff)"

text \<open>Line 946: the sum of \<open>size_mean\<close> of each day, nulls skipped.\<close>

definition dff_participants :: "frame \<Rightarrow> (int \<times> rat) list" where
  "dff_participants dff =
     map (\<lambda>d. (d, series_sum (map size_mean (on_day d (rows dff))))) (day_span (rows dff))"

text \<open>A chart is \<open>None\<close> where the code returns the bare \<open>go.Figure()\<close>.\<close>

definition chart :: "'a list \<Rightarrow> 'a list option" where
  "chart xs = (if xs = [] then None else Some xs)"

section \<open>update_all\<close>

definition store_cols :: "string list" where
  "store_cols = [''lat'', ''lon'', ''date'', ''size_mean'', ''participants_numeric'', ''title'',
     ''organizations'', ''location_label'', ''locality'', ''location'', ''notables'',
     ''targets'', ''claims_summary'', ''participant_measures'', ''police_measures'',
     ''participant_injuries'', ''police_injuries'', ''arrests'', ''property_damage'', ''notes'']"

definition dff_store :: "frame \<Rightarrow> frame" where
  "dff_store dff =
     (if list_all (\<lambda>c. has_col c dff) store_cols then dff\<lparr>columns := store_cols\<rparr> else dff)"

text \<open>
  The ten outputs of the callback, in the order of its return statements. The tests of
  the callback for the presence of a column are made on the columns of the filtered
  table; the column \<open>date\<close> holds dates since the load, so the test of its type
  in line 905 never fires.
\<close>

record dashboard =
  map_graph :: "map_fig option"
  momentum_graph :: "momentum_fig option"
  daily_graph :: "(int \<times> nat) list option"
  kpi_cards :: "(string \<times> string) list"
  filtered_data :: frame
  cumulative_graph :: "(int \<times> nat) list option"
  daily_participant_graph :: "(int \<times> rat) list option"
  no_data_message :: "string option"
  largest_event_kpi :: "(string \<times> string) option"
  largest_day_kpi :: "(string \<times> string) option"

text \<open>The test of line 779.\<close>

definition no_location_data :: "frame \<Rightarrow> bool" where
  "no_location_data dff =
     (\<not> has_col ''lat'' dff \<or> \<not> has_col ''lon'' dff
      \<or> all_null (map lat (rows dff)) \<or> all_null (map lon (rows dff)))"

text \<open>
  The callback takes the store of \<open>aggregate_events_for_map\<close> and returns it as the
  call leaves it.
\<close>

definition update_all :: "agg_cache \<Rightarrow> frame \<Rightarrow> filter_spec \<Rightarrow> dashboard \<times> agg_cache" where
  "update_all cache df spec =
     (let dff = filter_data df spec in
      if no_location_data dff then
        (\<lparr>map_graph = None, momentum_graph = None, daily_graph = None,
          kpi_cards = kpis dff, filtered_data = dff,
          cumulative_graph = None, daily_participant_graph = None,
          no_data_message = Some ''No events with valid location data for the selected filters.'',
          largest_event_kpi = None, largest_day_kpi = None\<rparr>,
         cache)
      else
        (let looked_up = aggregate_events_for_map cache dff;
             agg_map = fst looked_up;
             no_dates = (\<not> has_col ''date'' dff \<or> all_null (map date (rows dff))) in
         (\<lparr>map_graph = Some (fig_map agg_map),
           momentum_graph = Some (fig_momentum dff),
           daily_graph = (if no_dates then None else chart (dff_daily dff)),
           kpi_cards = kpis dff,
           filtered_data = dff_store dff,
           cumulative_graph = (if no_dates then None else chart (dff_cum dff)),
           daily_participant_graph = (if no_dates then None else chart (dff_participants dff)),
           no_data_message = None,
           largest_event_kpi = Some (format_f True 0 (largest_event dff), ''Largest Event''),
           largest_day_kpi = Some (format_f True 0 (largest_day dff), ''Largest Day'')\<rparr>,
          snd looked_up)))"

section \<open>download_csv\<close>

text \<open>
  The export as the table handed to \<open>to_csv\<close>; \<open>None\<close> is \<open>no_update\<close>. The click
  count is \<open>None\<close> before the first click.
\<close>

definition download_csv :: "frame \<Rightarrow> nat option \<Rightarrow> string \<Rightarrow> filter_spec \<Rightarrow> frame option" where
  "download_csv df n_clicks choice spec =
     (if n_clicks = None \<or> n_clicks = Some 0 then None
      else
        (let export_df = (if choice = ''full'' then df else filter_data df spec)
         in Some (if ''fallback'' \<in> set (columns export_df)
                  then export_df\<lparr>columns := filter (\<lambda>c. c \<noteq> ''fallback'') (columns export_df)\<rparr>
                  else export_df)))"

section \<open>The properties in the words of the specification\<close>

text \<open>The row that \<open>filter_data\<close> returns for a row of the table that passes the mask.\<close>

definition labelled :: "string list \<Rightarrow> row \<Rightarrow> row" where
  "labelled cols r =
     (let q = fill_required cols r in q\<lparr>location_label := Some (filter_data_best_location q)\<rparr>)"

text \<open>\<open>start_date <= date <= end_date\<close>, false for a row without a date.\<close>

definition date_in_range :: "date \<Rightarrow> date \<Rightarrow> row \<Rightarrow> bool" where
  "date_in_range s e r = (case date r of None \<Rightarrow> False
     | Some d \<Rightarrow> toordinal s \<le> toordinal d \<and> toordinal d \<le> toordinal e)"

text \<open>The same specification with no date bound at all.\<close>

definition without_dates :: "filter_spec \<Rightarrow> filter_spec" where
  "without_dates spec = spec\<lparr>start_date := None, end_date := None\<rparr>"


text \<open>The events of a day that have a size.\<close>

definition sized_on :: "frame \<Rightarrow> int \<Rightarrow> row list" where
  "sized_on dff d = filter (\<lambda>r. size_mean r \<noteq> None) (on_day d (rows dff))"

text \<open>
  The momentum of a day as the specification words it: the sum of \<open>size_mean\<close> over
  the events of the day times the number of events of the day, all of them.
\<close>

definition spec_momentum :: "frame \<Rightarrow> int \<Rightarrow> rat" where
  "spec_momentum dff d = series_sum (map size_mean (on_day d (rows dff)))
     * of_nat (length (on_day d (rows dff)))"





text \<open>The text of the message of line 789.\<close>

definition no_location_message :: string where
  "no_location_message = ''No events with valid location data for the selected filters.''"

text \<open>
  A call of the map aggregation is served fresh when the store holds no entry under the
  key of the table, or holds the aggregation of this very table.
\<close>

definition served_fresh :: "agg_cache \<Rightarrow> frame \<Rightarrow> bool" where
  "served_fresh cache dff = (case cache (cache_key dff) of
       None \<Rightarrow> True
     | Some agg \<Rightarrow> agg = aggregate_events_for_map_uncached dff)"

section \<open>Example data\<close>

definition blank_row :: row where
  "blank_row = \<lparr>title = None, date = None, state = None, organizations = ''nan'',
     targets = ''nan'', location = None, locality = None, lat = None, lon = None,
     size_mean = None, participant_injuries = None, police_injuries = None, arrests = None,
     participant_deaths = None, police_deaths = None, property_damage = None,
     notables = None, claims_summary = None, participant_measures = None,
     police_measures = None, notes_col = None, location_label = None\<rparr>"

definition jan1 :: date where
  "jan1 = \<lparr>year = 2025, month = 1, day = 1\<rparr>"

definition jan3 :: date where
  "jan3 = \<lparr>year = 2025, month = 1, day = 3\<rparr>"

text \<open>Every filter at its default: no constraint.\<close>

definition no_filter :: filter_spec where
  "no_filter = \<lparr>start_date = None, end_date = None, size_filter = ''all'', org_search = None,
     state_filter = [], any_outcomes_filter = []\<rparr>"

text \<open>A state filter that no row of the examples passes.\<close>

definition nowhere :: filter_spec where
  "nowhere = no_filter\<lparr>state_filter := [''ZZ'']\<rparr>"

text \<open>The size filter at "No participant size".\<close>

definition unsized :: filter_spec where
  "unsized = no_filter\<lparr>size_filter := ''no''\<rparr>"


text \<open>The store of the map aggregation with no entry.\<close>

definition empty_cache :: agg_cache where
  "empty_cache = Map.empty"

text \<open>The columns that the specification lists for the source file.\<close>

definition csv_header :: "string list" where
  "csv_header = [''date'', ''size_mean'', ''targets'', ''organizations'', ''state'',
     ''participant_injuries'', ''police_injuries'', ''arrests'', ''participant_deaths'',
     ''police_deaths'', ''property_damage'', ''lat'', ''lon'', ''title'', ''location'',
     ''locality'', ''notables'', ''claims_summary'', ''participant_measures'',
     ''police_measures'', ''notes'']"

text \<open>An event in Austin on 2025-01-01, with coordinates.\<close>

definition austin :: row where
  "austin = blank_row\<lparr>title := Some ''Rally'', date := Some jan1, state := Some ''TX'',
     organizations := ''resist now'', location := Some ''Austin'',
     lat := Some (30267 / 1000), lon := Some (- 97743 / 1000)\<rparr>"

text \<open>An event in Dallas on 2025-01-01 with a size of 50 and no coordinates.\<close>

definition dallas :: row where
  "dallas = blank_row\<lparr>title := Some ''Sit-in'', date := Some jan1, state := Some ''TX'',
     location := Some ''Dallas'', size_mean := Some 50\<rparr>"

text \<open>An event with coordinates and a state, and no location, locality or date.\<close>

definition nameless :: row where
  "nameless = blank_row\<lparr>title := Some ''March'', state := Some ''TX'',
     lat := Some 31, lon := Some (- 100)\<rparr>"

text \<open>Two events in Austin on 2025-01-01, the first with a size of 100, the second without.\<close>

definition same_day_df :: frame where
  "same_day_df = \<lparr>columns = load_columns csv_header,
     rows = [austin\<lparr>size_mean := Some 100\<rparr>, austin\<lparr>title := Some ''Vigil''\<rparr>]\<rparr>"

definition nameless_df :: frame where
  "nameless_df = \<lparr>columns = load_columns csv_header, rows = [nameless]\<rparr>"

definition no_coords_df :: frame where
  "no_coords_df = \<lparr>columns = load_columns csv_header, rows = [dallas]\<rparr>"

text \<open>Two events, one with a latitude only, the other with a longitude only.\<close>

definition split_coords_df :: frame where
  "split_coords_df = \<lparr>columns = load_columns csv_header,
     rows = [dallas\<lparr>lat := Some 32\<rparr>, dallas\<lparr>lon := Some (- 96)\<rparr>]\<rparr>"

text \<open>An event with coordinates and an event without, on the same day.\<close>

definition mixed_df :: frame where
  "mixed_df = \<lparr>columns = load_columns csv_header,
     rows = [austin\<lparr>size_mean := Some 100\<rparr>, dallas]\<rparr>"



text \<open>
  Five events: one the day before the range from 2025-01-01 to 2025-01-03, one on its
  first day, one on its last day, one the day after, and one without a date.
\<close>

definition dec31 :: date where
  "dec31 = \<lparr>year = 2024, month = 12, day = 31\<rparr>"

definition jan4 :: date where
  "jan4 = \<lparr>year = 2025, month = 1, day = 4\<rparr>"

definition dated_df :: frame where
  "dated_df = \<lparr>columns = load_columns csv_header,
     rows = [dallas\<lparr>title := Some ''Early'', date := Some dec31\<rparr>,
             dallas\<lparr>title := Some ''Start''\<rparr>,
             dallas\<lparr>title := Some ''End'', date := Some jan3\<rparr>,
             dallas\<lparr>title := Some ''Late'', date := Some jan4\<rparr>,
             dallas\<lparr>title := Some ''Undated'', date := None\<rparr>]\<rparr>"







section \<open>Evaluation and structure lemmas\<close>

lemma show_nat_lt10: "n < 10 \<Longrightarrow> show_nat n = [digit n]"
  by (simp add: show_nat.simps)

lemma show_nat_ge10: "\<not> n < 10 \<Longrightarrow> show_nat n = show_nat (n div 10) @ [digit (n mod 10)]"
  by (subst show_nat.simps) simp

lemma comma_nat_lt1000: "n < 1000 \<Longrightarrow> comma_nat n = show_nat n"
  by (simp add: comma_nat.simps)

lemma comma_nat_ge1000:
  "\<not> n < 1000 \<Longrightarrow> comma_nat n = comma_nat (n div 1000) @ '','' @ zfill 3 (show_nat (n mod 1000))"
  by (subst comma_nat.simps) simp

lemmas show_simps = show_nat_lt10 show_nat_ge10 comma_nat_lt1000 comma_nat_ge1000 digit_def
  zfill_def

lemmas text_eval = strip_def isspace_def lower_def lower_char_def py_str_def Let_def show_simps

lemmas date_eval = toordinal_def days_before_year_def days_before_month_def is_leap_def
  date_str_def

lemmas filter_eval = filter_data_def mask_def date_mask_def size_mask_def org_mask_def
  state_mask_def fill_required_def load_columns_def assign_col_def required_cols_def
  filter_data_best_location_def

lemmas series_eval = day_of_def on_day_def series_sum_def notna_values_def
  List.map_filter_simps

lemma fold_conj: "fold (\<lambda>x m. m \<and> P x) xs b = (b \<and> (\<forall>x\<in>set xs. P x))"
  by (induction xs arbitrary: b) auto

lemma mask_iff:
  "mask spec r = (date_mask spec r \<and> size_mask spec r \<and> org_mask spec r \<and> state_mask spec r
     \<and> (\<forall>f\<in>set (any_outcomes_filter spec). outcome_mask f r))"
  by (simp add: mask_def fold_conj)

lemma rows_filter_data:
  "rows (filter_data df spec) = map (labelled (columns df)) (filter (mask spec) (rows df))"
  by (simp add: filter_data_def labelled_def Let_def comp_def)

lemma set_assign_col: "set (assign_col c cols) = insert c (set cols)"
  by (auto simp: assign_col_def)

lemma set_fold_assign_col: "set (fold assign_col cs cols) = set cs \<union> set cols"
  by (induction cs arbitrary: cols) (auto simp: set_assign_col)

lemma columns_filter_data:
  "set (columns (filter_data df spec))
     = insert ''location_label'' (set required_cols \<union> set (columns df))"
  by (simp add: filter_data_def Let_def set_assign_col set_fold_assign_col)

lemma labelled_fields:
  "date (labelled cols r) = date r"
  "size_mean (labelled cols r) = size_mean r"
  "arrests (labelled cols r) = arrests r"
  "participant_injuries (labelled cols r) = participant_injuries r"
  "police_injuries (labelled cols r) = police_injuries r"
  "participant_deaths (labelled cols r) = participant_deaths r"
  "police_deaths (labelled cols r) = police_deaths r"
  "property_damage (labelled cols r) = property_damage r"
  by (simp_all add: labelled_def fill_required_def Let_def)

lemma without_dates_masks:
  "date_mask (without_dates spec) r"
  "size_mask (without_dates spec) r = size_mask spec r"
  "org_mask (without_dates spec) r = org_mask spec r"
  "state_mask (without_dates spec) r = state_mask spec r"
  "any_outcomes_filter (without_dates spec) = any_outcomes_filter spec"
  by (simp_all add: without_dates_def date_mask_def size_mask_def org_mask_def state_mask_def
      split: option.splits)

lemma mask_without_dates:
  "mask spec = (\<lambda>r. date_mask spec r \<and> mask (without_dates spec) r)"
  by (rule ext) (simp add: mask_iff without_dates_masks)

lemma notna_values_simps:
  "notna_values [] = []"
  "notna_values (None # xs) = notna_values xs"
  "notna_values (Some v # xs) = v # notna_values xs"
  by (simp_all add: notna_values_def List.map_filter_simps)

lemma series_sum_filter_sized:
  "series_sum (map size_mean (filter (\<lambda>r. size_mean r \<noteq> None) rs))
     = series_sum (map size_mean rs)"
  by (induction rs) (auto simp: series_sum_def notna_values_simps)

lemma length_notna_values:
  "length (notna_values (map size_mean rs)) = length (filter (\<lambda>r. size_mean r \<noteq> None) rs)"
  by (induction rs) (auto simp: notna_values_simps)

lemma on_day_momentum_rows:
  "on_day d (momentum_rows dff) = filter (\<lambda>r. size_mean r \<noteq> None) (on_day d (rows dff))"
proof -
  have "day_of r = Some d \<Longrightarrow> date r \<noteq> None" for r
    by (auto simp: day_of_def)
  then show ?thesis
    unfolding on_day_def momentum_rows_def participants_numeric_def filter_filter
    by (intro filter_cong [OF refl]) auto
qed

lemma map_index: "map (\<lambda>i. f (xs ! i)) [0 ..< length xs] = map f xs"
  by (rule nth_equalityI) simp_all

lemma participants_numeric_eq: "participants_numeric = size_mean"
  by (rule ext) (simp add: participants_numeric_def)

lemma momentum_day_sum:
  "series_sum (map participants_numeric (on_day d (momentum_rows dff)))
     = series_sum (map size_mean (on_day d (rows dff)))"
  unfolding participants_numeric_eq on_day_momentum_rows
  by (rule series_sum_filter_sized)

lemma momentum_day_count:
  "length (notna_values (map participants_numeric (on_day d (momentum_rows dff))))
     = length (sized_on dff d)"
  unfolding participants_numeric_eq on_day_momentum_rows length_notna_values sized_on_def
  by simp

lemma momentum_trace_eq:
  "momentum_trace (fig_momentum dff)
     = map (\<lambda>d. (d, series_sum (map size_mean (on_day d (rows dff)))
                    * of_nat (length (sized_on dff d))))
         (day_span (momentum_rows dff))"
proof -
  let ?days = "day_span (momentum_rows dff)"
  let ?f = "\<lambda>d. (d, series_sum (map size_mean (on_day d (rows dff)))
                    * of_nat (length (sized_on dff d)))"
  have "momentum_trace (fig_momentum dff) = map (\<lambda>i. ?f (?days ! i)) [0 ..< length ?days]"
    by (simp add: fig_momentum_def dff_momentum_def Let_def momentum_day_sum
        momentum_day_count comp_def)
  also have "\<dots> = map ?f ?days"
    by (rule map_index)
  finally show ?thesis .
qed

lemma same_day_filtered:
  "filter_data same_day_df no_filter =
     \<lparr>columns = csv_header @ [''participants_numeric'', ''location_label''],
      rows = [austin\<lparr>size_mean := Some 100, location_label := Some ''Austin''\<rparr>,
              austin\<lparr>title := Some ''Vigil'', location_label := Some ''Austin''\<rparr>]\<rparr>"
  by (simp add: filter_eval text_eval same_day_df_def no_filter_def austin_def blank_row_def
      csv_header_def)

lemma same_day_has_location_data: "\<not> no_location_data (filter_data same_day_df no_filter)"
  unfolding same_day_filtered
  by (simp add: no_location_data_def has_col_def all_null_def csv_header_def austin_def
      blank_row_def)

lemma same_day_fig_momentum:
  "fig_momentum (filter_data same_day_df no_filter)
     = \<lparr>momentum_trace = [(739252, 100)], alt_momentum_trace = [(739252, None)],
        trendline_trace = None\<rparr>"
  unfolding same_day_filtered
  by (simp add: fig_momentum_def dff_momentum_def momentum_rows_def participants_numeric_def
      day_span_def series_eval rolling7_def trendline_def date_eval austin_def blank_row_def
      jan1_def Let_def)

lemma update_all_momentum_graph:
  "momentum_graph (fst (update_all cache df spec))
     = (if no_location_data (filter_data df spec) then None
        else Some (fig_momentum (filter_data df spec)))"
  by (simp add: update_all_def Let_def)

subsection \<open>Outcome flags\<close>










subsection \<open>Groups of the map\<close>



lemma agg_group_fields:
  "agg_location_label (agg_group l g) = l"
  "agg_count (agg_group l g) = length g"
  "agg_text (agg_group l g) = l"
  by (simp_all add: agg_group_def Let_def)


lemma aggregate_texts:
  "map agg_text (aggregate_events_for_map_uncached dff)
     = sort (remdups (map map_label (filter geolocatable (rows dff))))"
  by (simp add: aggregate_events_for_map_uncached_def Let_def comp_def agg_group_fields)

lemma aggregate_counts:
  "map agg_count (aggregate_events_for_map_uncached dff)
     = map (\<lambda>l. length (group_rows l (filter geolocatable (rows dff))))
         (sort (remdups (map map_label (filter geolocatable (rows dff)))))"
  by (simp add: aggregate_events_for_map_uncached_def Let_def comp_def agg_group_fields)


lemma aggregate_of_geolocatable:
  "aggregate_events_for_map_uncached (dff\<lparr>rows := filter geolocatable (rows dff)\<rparr>)
     = aggregate_events_for_map_uncached dff"
  by (simp add: aggregate_events_for_map_uncached_def)

lemma all_null_not_geolocatable:
  "all_null (map lat rs) \<or> all_null (map lon rs) \<Longrightarrow> filter geolocatable rs = []"
  by (induction rs) (auto simp: all_null_def geolocatable_def)

subsection \<open>The store of the map aggregation\<close>



lemma aggregate_fresh:
  "served_fresh cache dff \<Longrightarrow>
     fst (aggregate_events_for_map cache dff) = aggregate_events_for_map_uncached dff"
  by (simp add: served_fresh_def aggregate_events_for_map_def Let_def split: option.splits)

lemma served_fresh_empty: "served_fresh empty_cache dff"
  by (simp add: served_fresh_def empty_cache_def)


subsection \<open>The two label functions\<close>

lemma best_location_agree:
  "date r \<noteq> None \<Longrightarrow> filter_data_best_location r = aggregate_best_location r"
  by (auto simp: filter_data_best_location_def aggregate_best_location_def Let_def)

lemma best_location_depends_on:
  "location r = location q \<Longrightarrow> locality r = locality q \<Longrightarrow> state r = state q \<Longrightarrow>
     date r = date q \<Longrightarrow>
     filter_data_best_location r = filter_data_best_location q
     \<and> aggregate_best_location r = aggregate_best_location q"
  by (simp add: filter_data_best_location_def aggregate_best_location_def Let_def)

subsection \<open>The outputs of update_all\<close>

lemma has_col_filtered:
  "has_col ''lat'' (filter_data df spec)"
  "has_col ''lon'' (filter_data df spec)"
  "has_col ''date'' (filter_data df spec)"
  "has_col ''size_mean'' (filter_data df spec)"
  by (simp_all add: has_col_def columns_filter_data required_cols_def)

lemma no_location_data_filtered:
  "no_location_data (filter_data df spec)
     = (all_null (map lat (rows (filter_data df spec)))
        \<or> all_null (map lon (rows (filter_data df spec))))"
  by (simp add: no_location_data_def has_col_filtered)

lemma update_all_kpi_cards: "kpi_cards (fst (update_all cache df spec)) = kpis (filter_data df spec)"
  by (simp add: update_all_def Let_def)

lemma update_all_message:
  "no_data_message (fst (update_all cache df spec))
     = (if no_location_data (filter_data df spec) then Some no_location_message else None)"
  by (simp add: update_all_def Let_def no_location_message_def)

lemma update_all_stored_rows:
  "rows (filtered_data (fst (update_all cache df spec))) = rows (filter_data df spec)"
  by (simp add: update_all_def Let_def dff_store_def)

lemma update_all_without_location:
  "no_location_data (filter_data df spec) \<Longrightarrow>
     map_graph (fst (update_all cache df spec)) = None
     \<and> momentum_graph (fst (update_all cache df spec)) = None
     \<and> daily_graph (fst (update_all cache df spec)) = None
     \<and> cumulative_graph (fst (update_all cache df spec)) = None
     \<and> daily_participant_graph (fst (update_all cache df spec)) = None
     \<and> largest_event_kpi (fst (update_all cache df spec)) = None
     \<and> largest_day_kpi (fst (update_all cache df spec)) = None"
  by (simp add: update_all_def Let_def)

lemma update_all_with_location:
  "\<not> no_location_data (filter_data df spec) \<Longrightarrow>
     map_graph (fst (update_all cache df spec))
       = Some (fig_map (fst (aggregate_events_for_map cache (filter_data df spec))))
     \<and> snd (update_all cache df spec)
       = snd (aggregate_events_for_map cache (filter_data df spec))
     \<and> daily_graph (fst (update_all cache df spec))
       = (if all_null (map date (rows (filter_data df spec))) then None
          else chart (dff_daily (filter_data df spec)))
     \<and> cumulative_graph (fst (update_all cache df spec))
       = (if all_null (map date (rows (filter_data df spec))) then None
          else chart (dff_cum (filter_data df spec)))
     \<and> daily_participant_graph (fst (update_all cache df spec))
       = (if all_null (map date (rows (filter_data df spec))) then None
          else chart (dff_participants (filter_data df spec)))
     \<and> largest_event_kpi (fst (update_all cache df spec))
       = Some (format_f True 0 (largest_event (filter_data df spec)), ''Largest Event'')
     \<and> largest_day_kpi (fst (update_all cache df spec))
       = Some (format_f True 0 (largest_day (filter_data df spec)), ''Largest Day'')"
  by (simp add: update_all_def Let_def has_col_filtered)

subsection \<open>The metrics on a filtered table\<close>

lemma mean_size_filtered:
  "mean_size (filter_data df spec) = series_mean (map size_mean (rows (filter_data df spec)))"
  by (simp add: mean_size_def has_col_filtered)

lemma series_mean_defined:
  "notna_values xs \<noteq> [] \<Longrightarrow>
     series_mean xs = Some (sum_list (notna_values xs) / of_nat (length (notna_values xs)))"
  by (simp add: series_mean_def Let_def)

lemma percent_us_pop_defined:
  "peak_day dff = Some p \<Longrightarrow> percent_us_pop dff = Some (100 * p / 340100000)"
  by (simp add: percent_us_pop_def truthy_def num_mul_def num_div_def US_POPULATION_def)

lemma percent_no_size_no_events: "total_events dff = 0 \<Longrightarrow> percent_no_size dff = 0"
  by (simp add: percent_no_size_def)

lemma sizeref_positive: "0 < sizeref has_size"
  by (simp add: sizeref_def split: option.splits)

lemmas metric_eval = kpis_def total_events_def percent_us_pop_def peak_day_def day_sums_def
  mean_size_def percent_no_size_def has_col_def series_max_def series_mean_def truthy_def
  num_mul_def num_div_def format_f_def round_half_even_def

subsection \<open>The examples, evaluated\<close>

lemma same_day_nowhere:
  "filter_data same_day_df nowhere =
     \<lparr>columns = csv_header @ [''participants_numeric'', ''location_label''], rows = []\<rparr>"
  by (simp add: filter_eval text_eval same_day_df_def nowhere_def no_filter_def austin_def
      blank_row_def csv_header_def)

lemma same_day_unsized:
  "filter_data same_day_df unsized =
     \<lparr>columns = csv_header @ [''participants_numeric'', ''location_label''],
      rows = [austin\<lparr>title := Some ''Vigil'', location_label := Some ''Austin''\<rparr>]\<rparr>"
  by (simp add: filter_eval text_eval same_day_df_def unsized_def no_filter_def austin_def
      blank_row_def csv_header_def)

lemma nameless_filtered:
  "filter_data nameless_df no_filter =
     \<lparr>columns = csv_header @ [''participants_numeric'', ''location_label''],
      rows = [nameless\<lparr>location_label := Some ''TX, ''\<rparr>]\<rparr>"
  by (simp add: filter_eval text_eval nameless_df_def no_filter_def nameless_def blank_row_def
      csv_header_def)

lemma no_coords_filtered:
  "filter_data no_coords_df no_filter =
     \<lparr>columns = csv_header @ [''participants_numeric'', ''location_label''],
      rows = [dallas\<lparr>location_label := Some ''Dallas''\<rparr>]\<rparr>"
  by (simp add: filter_eval text_eval no_coords_df_def no_filter_def dallas_def
      blank_row_def csv_header_def)

lemma no_coords_nowhere:
  "filter_data no_coords_df nowhere =
     \<lparr>columns = csv_header @ [''participants_numeric'', ''location_label''], rows = []\<rparr>"
  by (simp add: filter_eval text_eval no_coords_df_def nowhere_def no_filter_def dallas_def
      blank_row_def csv_header_def)

lemma split_coords_filtered:
  "filter_data split_coords_df no_filter =
     \<lparr>columns = csv_header @ [''participants_numeric'', ''location_label''],
      rows = [dallas\<lparr>lat := Some 32, location_label := Some ''Dallas''\<rparr>,
              dallas\<lparr>lon := Some (- 96), location_label := Some ''Dallas''\<rparr>]\<rparr>"
  by (simp add: filter_eval text_eval split_coords_df_def no_filter_def dallas_def
      blank_row_def csv_header_def)

lemma mixed_filtered:
  "filter_data mixed_df no_filter =
     \<lparr>columns = csv_header @ [''participants_numeric'', ''location_label''],
      rows = [austin\<lparr>size_mean := Some 100, location_label := Some ''Austin''\<rparr>,
              dallas\<lparr>location_label := Some ''Dallas''\<rparr>]\<rparr>"
  by (simp add: filter_eval text_eval mixed_df_def no_filter_def austin_def dallas_def
      blank_row_def csv_header_def)




subsection \<open>The partition by the body of the map aggregation\<close>


subsection \<open>The dated example and the crowd example, evaluated\<close>

lemma dated_rows_in_range:
  "filter (date_in_range jan1 jan3) (rows dated_df)
     = [dallas\<lparr>title := Some ''Start''\<rparr>, dallas\<lparr>title := Some ''End'', date := Some jan3\<rparr>]"
  by (simp add: dated_df_def date_in_range_def date_eval dallas_def blank_row_def jan1_def
      jan3_def jan4_def dec31_def)

lemma no_filter_mask: "mask (no_filter\<lparr>start_date := a, end_date := b\<rparr>) r
    = date_mask (no_filter\<lparr>start_date := a, end_date := b\<rparr>) r"
  by (simp add: mask_def size_mask_def org_mask_def state_mask_def no_filter_def)










section \<open>The claims\<close>

text \<open>
  C1 (as stated). For every filtered row set and every day of the dense daily
  resampling, the momentum of the day is the sum of \<open>size_mean\<close> over the events of
  the day times the number of events of the day, all events counted and not only those
  with a size. This fails: of two events on 2025-01-01 (day number 739252), one with a
  size of 100 and one without, the code counts one and plots 100, where the statement
  gives 200.
\<close>

theorem momentum_all_events_counterexample:
  "momentum_graph (fst (update_all empty_cache same_day_df no_filter))
     = Some \<lparr>momentum_trace = [(739252, 100)], alt_momentum_trace = [(739252, None)],
             trendline_trace = None\<rparr>
   \<and> length (on_day 739252 (rows (filter_data same_day_df no_filter))) = 2
   \<and> spec_momentum (filter_data same_day_df no_filter) 739252 = 200"
proof -
  have "length (on_day 739252 (rows (filter_data same_day_df no_filter))) = 2"
    unfolding same_day_filtered
    by (simp add: series_eval date_eval austin_def blank_row_def jan1_def)
  moreover have "spec_momentum (filter_data same_day_df no_filter) 739252 = 200"
    unfolding same_day_filtered
    by (simp add: spec_momentum_def series_eval date_eval austin_def blank_row_def jan1_def)
  ultimately show ?thesis
    by (simp add: update_all_momentum_graph same_day_has_location_data same_day_fig_momentum)
qed

text \<open>
  C1 (amended). For every filtered row set, the momentum series has one point for each
  calendar day from the first to the last date among the rows that have both a date and
  a size, and the momentum of a day is the sum of \<open>size_mean\<close> over the events of
  that day times the number of events of that day that have a size.
\<close>

theorem momentum_counts_sized_events:
  "momentum_trace (fig_momentum (filter_data df spec))
     = map (\<lambda>d. (d, series_sum (map size_mean (on_day d (rows (filter_data df spec))))
                    * of_nat (length (sized_on (filter_data df spec) d))))
         (day_span (momentum_rows (filter_data df spec)))"
  by (rule momentum_trace_eq)

text \<open>
  C2 (as stated). A filtered set that has rows but none with valid coordinates still
  produces computed daily, cumulative and participant series and KPIs. This fails: for
  one event with a date and a size and no coordinates, the test of line 779 returns
  early, with empty figures for the three series and empty largest-event and
  largest-day boxes.
\<close>

theorem empty_series_without_coordinates_counterexample:
  "rows (filter_data no_coords_df no_filter) = [dallas\<lparr>location_label := Some ''Dallas''\<rparr>]
   \<and> daily_graph (fst (update_all empty_cache no_coords_df no_filter)) = None
   \<and> cumulative_graph (fst (update_all empty_cache no_coords_df no_filter)) = None
   \<and> daily_participant_graph (fst (update_all empty_cache no_coords_df no_filter)) = None
   \<and> largest_event_kpi (fst (update_all empty_cache no_coords_df no_filter)) = None
   \<and> largest_day_kpi (fst (update_all empty_cache no_coords_df no_filter)) = None"
proof -
  have "no_location_data (filter_data no_coords_df no_filter)"
    unfolding no_coords_filtered
    by (simp add: no_location_data_def all_null_def dallas_def blank_row_def)
  from update_all_without_location [OF this, of empty_cache] show ?thesis
    by (simp add: no_coords_filtered)
qed

text \<open>
  C2 (amended). A record with a null latitude or longitude is excluded from the
  spatial aggregation whenever the aggregation is served fresh (the store holds no
  entry under the key of the table, or holds the aggregation of this table): the map
  groups are then those of the geolocatable rows alone. The four KPI cards are always
  computed over all rows of the filtered set. When some latitude and some longitude of
  the filtered set are not null, the map is drawn from the groups and the daily,
  cumulative and participant series are computed over all rows of the set, with or
  without coordinates (and are empty only when no row has a date). When every latitude
  or every longitude of the filtered set is null, the momentum, daily, cumulative and
  participant figures are empty and so are the largest-event and largest-day boxes.
\<close>

theorem coordinates_gate_the_series:
  "(served_fresh cache (filter_data df spec) \<longrightarrow>
      fst (aggregate_events_for_map cache (filter_data df spec))
        = aggregate_events_for_map_uncached
            ((filter_data df spec)\<lparr>rows := filter geolocatable (rows (filter_data df spec))\<rparr>))
   \<and> kpi_cards (fst (update_all cache df spec)) = kpis (filter_data df spec)
   \<and> no_location_data (filter_data df spec)
       = (all_null (map lat (rows (filter_data df spec)))
          \<or> all_null (map lon (rows (filter_data df spec))))
   \<and> (\<not> no_location_data (filter_data df spec) \<longrightarrow>
        map_graph (fst (update_all cache df spec))
          = Some (fig_map (fst (aggregate_events_for_map cache (filter_data df spec))))
        \<and> daily_graph (fst (update_all cache df spec))
          = (if all_null (map date (rows (filter_data df spec))) then None
             else chart (dff_daily (filter_data df spec)))
        \<and> cumulative_graph (fst (update_all cache df spec))
          = (if all_null (map date (rows (filter_data df spec))) then None
             else chart (dff_cum (filter_data df spec)))
        \<and> daily_participant_graph (fst (update_all cache df spec))
          = (if all_null (map date (rows (filter_data df spec))) then None
             else chart (dff_participants (filter_data df spec))))
   \<and> (no_location_data (filter_data df spec) \<longrightarrow>
        map_graph (fst (update_all cache df spec)) = None
        \<and> momentum_graph (fst (update_all cache df spec)) = None
        \<and> daily_graph (fst (update_all cache df spec)) = None
        \<and> cumulative_graph (fst (update_all cache df spec)) = None
        \<and> daily_participant_graph (fst (update_all cache df spec)) = None
        \<and> largest_event_kpi (fst (update_all cache df spec)) = None
        \<and> largest_day_kpi (fst (update_all cache df spec)) = None)"
proof (intro conjI impI)
  show "fst (aggregate_events_for_map cache (filter_data df spec))
        = aggregate_events_for_map_uncached
            ((filter_data df spec)\<lparr>rows := filter geolocatable (rows (filter_data df spec))\<rparr>)"
    if "served_fresh cache (filter_data df spec)"
    using aggregate_fresh [OF that] by (simp only: aggregate_of_geolocatable)
  show "kpi_cards (fst (update_all cache df spec)) = kpis (filter_data df spec)"
    by (rule update_all_kpi_cards)
  show "no_location_data (filter_data df spec)
       = (all_null (map lat (rows (filter_data df spec)))
          \<or> all_null (map lon (rows (filter_data df spec))))"
    by (rule no_location_data_filtered)
next
  assume "\<not> no_location_data (filter_data df spec)"
  note w = update_all_with_location [OF this, of cache]
  from w show "map_graph (fst (update_all cache df spec))
          = Some (fig_map (fst (aggregate_events_for_map cache (filter_data df spec))))"
    by blast
  from w show "daily_graph (fst (update_all cache df spec))
          = (if all_null (map date (rows (filter_data df spec))) then None
             else chart (dff_daily (filter_data df spec)))"
    by blast
  from w show "cumulative_graph (fst (update_all cache df spec))
          = (if all_null (map date (rows (filter_data df spec))) then None
             else chart (dff_cum (filter_data df spec)))"
    by blast
  from w show "daily_participant_graph (fst (update_all cache df spec))
          = (if all_null (map date (rows (filter_data df spec))) then None
             else chart (dff_participants (filter_data df spec)))"
    by blast
next
  assume "no_location_data (filter_data df spec)"
  note w = update_all_without_location [OF this, of cache]
  from w show "map_graph (fst (update_all cache df spec)) = None" by blast
  from w show "momentum_graph (fst (update_all cache df spec)) = None" by blast
  from w show "daily_graph (fst (update_all cache df spec)) = None" by blast
  from w show "cumulative_graph (fst (update_all cache df spec)) = None" by blast
  from w show "daily_participant_graph (fst (update_all cache df spec)) = None" by blast
  from w show "largest_event_kpi (fst (update_all cache df spec)) = None" by blast
  from w show "largest_day_kpi (fst (update_all cache df spec)) = None" by blast
qed

theorem coordinates_gate_the_series_witness:
  "served_fresh empty_cache (filter_data mixed_df no_filter)
   \<and> \<not> no_location_data (filter_data mixed_df no_filter)
   \<and> length (rows (filter_data mixed_df no_filter)) = 2
   \<and> map agg_count (fst (aggregate_events_for_map empty_cache (filter_data mixed_df no_filter)))
       = [1]
   \<and> daily_graph (fst (update_all empty_cache mixed_df no_filter)) = Some [(739252, 2)]
   \<and> cumulative_graph (fst (update_all empty_cache mixed_df no_filter)) = Some [(739252, 2)]
   \<and> daily_participant_graph (fst (update_all empty_cache mixed_df no_filter))
       = Some [(739252, 150)]
   \<and> no_location_data (filter_data no_coords_df no_filter)
   \<and> daily_graph (fst (update_all empty_cache no_coords_df no_filter)) = None
   \<and> kpi_cards (fst (update_all empty_cache no_coords_df no_filter)) ! 0
       = (''1'', ''Total Events'')"
proof -
  have m: "\<not> no_location_data (filter_data mixed_df no_filter)"
    unfolding mixed_filtered
    by (simp add: no_location_data_def has_col_def all_null_def csv_header_def austin_def
        dallas_def blank_row_def)
  have nd: "\<not> all_null (map date (rows (filter_data mixed_df no_filter)))"
    unfolding mixed_filtered
    by (simp add: all_null_def austin_def blank_row_def)
  have d: "dff_daily (filter_data mixed_df no_filter) = [(739252, 2)]"
    unfolding mixed_filtered
    by (simp add: dff_daily_def day_span_def series_eval date_eval austin_def dallas_def
        blank_row_def jan1_def Let_def)
  have p: "dff_participants (filter_data mixed_df no_filter) = [(739252, 150)]"
    unfolding mixed_filtered
    by (simp add: dff_participants_def day_span_def series_eval date_eval austin_def dallas_def
        blank_row_def jan1_def Let_def)
  have g: "filter geolocatable (rows (filter_data mixed_df no_filter))
      = [austin\<lparr>size_mean := Some 100, location_label := Some ''Austin''\<rparr>]"
    unfolding mixed_filtered
    by (simp add: geolocatable_def austin_def dallas_def blank_row_def)
  have a: "map agg_count (aggregate_events_for_map_uncached
        ((filter_data mixed_df no_filter)
           \<lparr>rows := filter geolocatable (rows (filter_data mixed_df no_filter))\<rparr>)) = [1]"
    unfolding aggregate_counts g
    by (simp add: geolocatable_def map_label_def aggregate_best_location_def group_rows_def
        text_eval austin_def blank_row_def)
  have n: "no_location_data (filter_data no_coords_df no_filter)"
    unfolding no_coords_filtered
    by (simp add: no_location_data_def all_null_def dallas_def blank_row_def)
  have k: "kpis (filter_data no_coords_df no_filter) ! 0 = (''1'', ''Total Events'')"
    unfolding no_coords_filtered
    by (simp add: kpis_def total_events_def show_simps)
  have l: "length (rows (filter_data mixed_df no_filter)) = 2"
    unfolding mixed_filtered by simp
  show ?thesis
    using coordinates_gate_the_series [of empty_cache mixed_df no_filter]
      coordinates_gate_the_series [of empty_cache no_coords_df no_filter]
      served_fresh_empty [of "filter_data mixed_df no_filter"] m nd d p a n k l
    by (simp add: chart_def dff_cum_def)
qed

text \<open>
  C3. The label computed during filtering equals the label computed during map
  aggregation for the same record, also when location and locality are blank and the
  date is missing. The code breaks this at exactly such a record: \<open>filter_data\<close> puts
  the empty text where \<open>aggregate_events_for_map\<close> puts \<open>Unknown\<close>, so the stored
  row carries the label \<open>TX, \<close> and its map marker the text \<open>TX, Unknown\<close>.
\<close>

theorem best_location_differs_without_date:
  "filter_data_best_location nameless = ''TX, ''
   \<and> aggregate_best_location nameless = ''TX, Unknown''
   \<and> map location_label (rows (filter_data nameless_df no_filter)) = [Some ''TX, '']
   \<and> map agg_text
         (fst (aggregate_events_for_map empty_cache (filter_data nameless_df no_filter)))
       = [''TX, Unknown'']"
proof -
  have "map agg_text
         (fst (aggregate_events_for_map empty_cache (filter_data nameless_df no_filter)))
      = [''TX, Unknown'']"
    unfolding aggregate_fresh [OF served_fresh_empty] aggregate_texts nameless_filtered
    by (simp add: geolocatable_def map_label_def aggregate_best_location_def text_eval
        nameless_def blank_row_def)
  moreover have "filter_data_best_location nameless = ''TX, ''"
    by (simp add: filter_data_best_location_def text_eval nameless_def blank_row_def)
  moreover have "aggregate_best_location nameless = ''TX, Unknown''"
    by (simp add: aggregate_best_location_def text_eval nameless_def blank_row_def)
  ultimately show ?thesis
    by (simp add: nameless_filtered)
qed



text \<open>
  C5. When both bounds are given, exactly the rows with
  \<open>start_date <= date <= end_date\<close> pass the date constraint: the result is made
  of the rows of the dataset that are in the range and pass the other filters, and with
  every other filter at its default it is made of exactly the rows of the dataset that
  are in the range. When either bound is absent no date constraint is applied: the
  result is made of the rows that pass the other filters, and with every other filter
  at its default of all rows of the dataset.
\<close>

theorem date_range_needs_both_bounds:
  "(start_date spec = Some s \<and> end_date spec = Some e \<longrightarrow>
      rows (filter_data df spec)
        = map (labelled (columns df))
            (filter (\<lambda>r. date_in_range s e r \<and> mask (without_dates spec) r) (rows df))
      \<and> rows (filter_data df spec)
        = filter (date_in_range s e) (rows (filter_data df (without_dates spec))))
   \<and> (start_date spec = None \<or> end_date spec = None \<longrightarrow>
      rows (filter_data df spec)
        = map (labelled (columns df)) (filter (mask (without_dates spec)) (rows df))
      \<and> filter_data df spec = filter_data df (without_dates spec))
   \<and> rows (filter_data df (no_filter\<lparr>start_date := Some s, end_date := Some e\<rparr>))
       = map (labelled (columns df)) (filter (date_in_range s e) (rows df))
   \<and> rows (filter_data df (no_filter\<lparr>start_date := a, end_date := None\<rparr>))
       = map (labelled (columns df)) (rows df)
   \<and> rows (filter_data df (no_filter\<lparr>start_date := None, end_date := b\<rparr>))
       = map (labelled (columns df)) (rows df)"
proof (intro conjI impI)
  assume b: "start_date spec = Some s \<and> end_date spec = Some e"
  then have dm: "date_mask spec = date_in_range s e"
    by (intro ext) (simp add: date_mask_def date_in_range_def)
  show abs: "rows (filter_data df spec)
        = map (labelled (columns df))
            (filter (\<lambda>r. date_in_range s e r \<and> mask (without_dates spec) r) (rows df))"
    by (simp add: rows_filter_data mask_without_dates [of spec] dm)
  have "filter (date_in_range s e) (map (labelled (columns df)) xs)
        = map (labelled (columns df)) (filter (date_in_range s e) xs)" for xs
    by (induction xs) (simp_all add: date_in_range_def labelled_fields)
  moreover have "filter (mask spec) (rows df)
        = filter (date_in_range s e) (filter (mask (without_dates spec)) (rows df))"
    unfolding filter_filter
    by (rule filter_cong [OF refl]) (auto simp: mask_without_dates [of spec] dm)
  ultimately show "rows (filter_data df spec)
        = filter (date_in_range s e) (rows (filter_data df (without_dates spec)))"
    by (simp add: rows_filter_data without_dates_def)
next
  assume "start_date spec = None \<or> end_date spec = None"
  then have "\<And>r. date_mask spec r"
    by (auto simp: date_mask_def split: option.splits)
  then have m: "mask spec = mask (without_dates spec)"
    using mask_without_dates [of spec] by simp
  then show "filter_data df spec = filter_data df (without_dates spec)"
    by (simp add: filter_data_def)
  from m show "rows (filter_data df spec)
        = map (labelled (columns df)) (filter (mask (without_dates spec)) (rows df))"
    by (simp add: rows_filter_data)
next
  have "mask (no_filter\<lparr>start_date := Some s, end_date := Some e\<rparr>) = date_in_range s e"
    by (intro ext) (simp add: no_filter_mask date_mask_def date_in_range_def)
  then show "rows (filter_data df (no_filter\<lparr>start_date := Some s, end_date := Some e\<rparr>))
       = map (labelled (columns df)) (filter (date_in_range s e) (rows df))"
    by (simp add: rows_filter_data)
next
  have "mask (no_filter\<lparr>start_date := a, end_date := None\<rparr>) = (\<lambda>r. True)"
    by (intro ext) (simp add: no_filter_mask date_mask_def split: option.splits)
  then show "rows (filter_data df (no_filter\<lparr>start_date := a, end_date := None\<rparr>))
       = map (labelled (columns df)) (rows df)"
    by (simp add: rows_filter_data)
next
  have "mask (no_filter\<lparr>start_date := None, end_date := b\<rparr>) = (\<lambda>r. True)"
    by (intro ext) (simp add: no_filter_mask date_mask_def split: option.splits)
  then show "rows (filter_data df (no_filter\<lparr>start_date := None, end_date := b\<rparr>))
       = map (labelled (columns df)) (rows df)"
    by (simp add: rows_filter_data)
qed

theorem date_range_needs_both_bounds_witness:
  "start_date (no_filter\<lparr>start_date := Some jan1, end_date := Some jan3\<rparr>) = Some jan1
   \<and> end_date (no_filter\<lparr>start_date := Some jan1, end_date := Some jan3\<rparr>) = Some jan3
   \<and> map title (rows dated_df)
       = [Some ''Early'', Some ''Start'', Some ''End'', Some ''Late'', Some ''Undated'']
   \<and> map date (rows dated_df) = [Some dec31, Some jan1, Some jan3, Some jan4, None]
   \<and> map title (rows (filter_data dated_df
         (no_filter\<lparr>start_date := Some jan1, end_date := Some jan3\<rparr>)))
       = [Some ''Start'', Some ''End'']
   \<and> end_date (no_filter\<lparr>start_date := Some jan3, end_date := None\<rparr>) = None
   \<and> map title (rows (filter_data dated_df (no_filter\<lparr>start_date := Some jan3, end_date := None\<rparr>)))
       = [Some ''Early'', Some ''Start'', Some ''End'', Some ''Late'', Some ''Undated'']
   \<and> map title (rows (filter_data dated_df (no_filter\<lparr>start_date := None, end_date := Some jan1\<rparr>)))
       = [Some ''Early'', Some ''Start'', Some ''End'', Some ''Late'', Some ''Undated'']"
proof -
  have t: "title (labelled cols r) = (if ''title'' \<in> set cols then title r else None)" for cols r
    by (simp add: labelled_def fill_required_def Let_def)
  have c: "''title'' \<in> set (columns dated_df)"
    by (simp add: dated_df_def load_columns_def assign_col_def csv_header_def)
  have tl: "title (labelled (columns dated_df) r) = title r" for r
    using c by (simp add: t)
  have mt: "map title (map (labelled (columns dated_df)) xs) = map title xs" for xs
    by (simp add: tl)
  have tt: "map title (rows dated_df)
       = [Some ''Early'', Some ''Start'', Some ''End'', Some ''Late'', Some ''Undated'']"
    by (simp add: dated_df_def dallas_def blank_row_def)
  have all: "map title (map (labelled (columns dated_df)) (rows dated_df))
       = [Some ''Early'', Some ''Start'', Some ''End'', Some ''Late'', Some ''Undated'']"
    by (simp only: mt tt)
  have some: "map title (map (labelled (columns dated_df))
        (filter (date_in_range jan1 jan3) (rows dated_df))) = [Some ''Start'', Some ''End'']"
    unfolding dated_rows_in_range mt
    by (simp add: dallas_def blank_row_def)
  have d: "map date (rows dated_df) = [Some dec31, Some jan1, Some jan3, Some jan4, None]"
    by (simp add: dated_df_def dallas_def blank_row_def)
  note T = date_range_needs_both_bounds
      [of "no_filter\<lparr>start_date := Some jan1, end_date := Some jan3\<rparr>" jan1 jan3 dated_df
        "Some jan3" "Some jan1"]
  from T have r1: "rows (filter_data dated_df
         (no_filter\<lparr>start_date := Some jan1, end_date := Some jan3\<rparr>))
      = map (labelled (columns dated_df)) (filter (date_in_range jan1 jan3) (rows dated_df))"
    by blast
  from T have r2: "rows (filter_data dated_df (no_filter\<lparr>start_date := Some jan3, end_date := None\<rparr>))
      = map (labelled (columns dated_df)) (rows dated_df)"
    by blast
  from T have r3: "rows (filter_data dated_df (no_filter\<lparr>start_date := None, end_date := Some jan1\<rparr>))
      = map (labelled (columns dated_df)) (rows dated_df)"
    by blast
  show ?thesis
  proof (intro conjI)
    show "start_date (no_filter\<lparr>start_date := Some jan1, end_date := Some jan3\<rparr>) = Some jan1"
      by simp
    show "end_date (no_filter\<lparr>start_date := Some jan1, end_date := Some jan3\<rparr>) = Some jan3"
      by simp
    show "end_date (no_filter\<lparr>start_date := Some jan3, end_date := None\<rparr>) = None"
      by simp
    show "map title (rows dated_df)
       = [Some ''Early'', Some ''Start'', Some ''End'', Some ''Late'', Some ''Undated'']"
      by (rule tt)
    show "map date (rows dated_df) = [Some dec31, Some jan1, Some jan3, Some jan4, None]"
      by (rule d)
    show "map title (rows (filter_data dated_df
         (no_filter\<lparr>start_date := Some jan1, end_date := Some jan3\<rparr>)))
       = [Some ''Start'', Some ''End'']"
      unfolding r1 by (rule some)
    show "map title (rows (filter_data dated_df (no_filter\<lparr>start_date := Some jan3, end_date := None\<rparr>)))
       = [Some ''Early'', Some ''Start'', Some ''End'', Some ''Late'', Some ''Undated'']"
      unfolding r2 by (rule all)
    show "map title (rows (filter_data dated_df (no_filter\<lparr>start_date := None, end_date := Some jan1\<rparr>)))
       = [Some ''Early'', Some ''Start'', Some ''End'', Some ''Late'', Some ''Undated'']"
      unfolding r3 by (rule all)
  qed
qed




text \<open>
  C7. The ratio metrics yield a defined default and never an invalid number; the
  percentage of the population is 0 when the peak is zero or undefined. The code breaks
  this where the peak is undefined: a filter that matches no row leaves no day to take
  the maximum over, the peak is NaN, NaN is true in \<open>if peak_day\<close>, and the card shows
  \<open>nan%\<close>. The other parts hold (lemmas \<open>percent_us_pop_defined\<close>,
  \<open>percent_no_size_no_events\<close>, \<open>sizeref_positive\<close>). The cards of the
  callback are \<open>kpis\<close> of the filtered table on both of its paths (lemma
  \<open>update_all_kpi_cards\<close>).
\<close>

theorem percent_of_population_nan_on_empty:
  "rows (filter_data same_day_df nowhere) = []
   \<and> peak_day (filter_data same_day_df nowhere) = None
   \<and> percent_us_pop (filter_data same_day_df nowhere) = None
   \<and> kpis (filter_data same_day_df nowhere) ! 1
       = (''nan%'', ''Largest Daily Participant Count as % of US population:'')"
  unfolding same_day_nowhere
  by (simp add: metric_eval series_eval csv_header_def)

text \<open>
  C8. The mean-size KPI is the arithmetic mean of the values of \<open>size_mean\<close> that are
  not null (lemmas \<open>mean_size_filtered\<close>, \<open>series_mean_defined\<close>), and renders as
  zero when that mean is undefined. The code breaks the second part: with the size
  filter at "No participant size" no row has a size, the mean is NaN and the card shows
  \<open>nan\<close>.
\<close>

theorem mean_size_nan_without_sizes:
  "map size_mean (rows (filter_data same_day_df unsized)) = [None]
   \<and> mean_size (filter_data same_day_df unsized) = None
   \<and> kpis (filter_data same_day_df unsized) ! 3 = (''nan'', ''Average Participant Count'')"
  unfolding same_day_unsized
  by (simp add: metric_eval series_eval csv_header_def austin_def blank_row_def)

text \<open>
  C9 (as stated). Whenever the matching row set has no geolocatable row, the output
  carries a message that says so. This fails: of two events, one with a latitude only
  and one with a longitude only, none is geolocatable, and the output has no message.
\<close>

theorem no_message_for_split_coordinates_counterexample:
  "filter geolocatable (rows (filter_data split_coords_df no_filter)) = []
   \<and> no_data_message (fst (update_all empty_cache split_coords_df no_filter)) = None"
  unfolding update_all_message split_coords_filtered
  by (simp add: no_location_data_def has_col_def csv_header_def geolocatable_def all_null_def
      dallas_def blank_row_def)

text \<open>
  C9 (amended). When every latitude or every longitude of the matching row set is null,
  the set has no geolocatable row and the output carries the message. A filter that
  matches no row at all gets the same message, and its output differs from the output
  for a set that has rows.
\<close>

theorem no_location_message_when_a_coordinate_column_is_null:
  "(all_null (map lat (rows (filter_data df spec)))
      \<or> all_null (map lon (rows (filter_data df spec)))
    \<longrightarrow> filter geolocatable (rows (filter_data df spec)) = []
        \<and> no_data_message (fst (update_all cache df spec)) = Some no_location_message)
   \<and> (rows (filter_data df spec) \<noteq> [] \<and> rows (filter_data df' spec') = []
      \<longrightarrow> no_data_message (fst (update_all cache' df' spec')) = Some no_location_message
          \<and> fst (update_all cache df spec) \<noteq> fst (update_all cache' df' spec'))"
proof (intro conjI impI)
  assume n: "all_null (map lat (rows (filter_data df spec)))
        \<or> all_null (map lon (rows (filter_data df spec)))"
  then show "filter geolocatable (rows (filter_data df spec)) = []"
    by (rule all_null_not_geolocatable)
  from n show "no_data_message (fst (update_all cache df spec)) = Some no_location_message"
    by (simp add: update_all_message no_location_data_filtered)
next
  assume h: "rows (filter_data df spec) \<noteq> [] \<and> rows (filter_data df' spec') = []"
  then show "no_data_message (fst (update_all cache' df' spec')) = Some no_location_message"
    by (simp add: update_all_message no_location_data_filtered all_null_def)
  show "fst (update_all cache df spec) \<noteq> fst (update_all cache' df' spec')"
  proof
    assume "fst (update_all cache df spec) = fst (update_all cache' df' spec')"
    then have "rows (filtered_data (fst (update_all cache df spec)))
        = rows (filtered_data (fst (update_all cache' df' spec')))"
      by simp
    with h show False
      by (simp only: update_all_stored_rows)
  qed
qed

theorem no_location_message_when_a_coordinate_column_is_null_witness:
  "all_null (map lat (rows (filter_data no_coords_df no_filter)))
   \<and> rows (filter_data no_coords_df no_filter) \<noteq> []
   \<and> rows (filter_data no_coords_df nowhere) = []
   \<and> no_data_message (fst (update_all empty_cache no_coords_df no_filter)) = Some no_location_message
   \<and> filter geolocatable (rows (filter_data no_coords_df no_filter)) = []
   \<and> no_data_message (fst (update_all empty_cache no_coords_df nowhere)) = Some no_location_message
   \<and> fst (update_all empty_cache no_coords_df no_filter)
       \<noteq> fst (update_all empty_cache no_coords_df nowhere)"
proof -
  have a: "all_null (map lat (rows (filter_data no_coords_df no_filter)))"
    unfolding no_coords_filtered by (simp add: all_null_def dallas_def blank_row_def)
  have b: "rows (filter_data no_coords_df no_filter) \<noteq> []"
    unfolding no_coords_filtered by simp
  have c: "rows (filter_data no_coords_df nowhere) = []"
    unfolding no_coords_nowhere by simp
  show ?thesis
    using a b c
      no_location_message_when_a_coordinate_column_is_null
        [of no_coords_df no_filter empty_cache no_coords_df nowhere empty_cache]
    by simp
qed

text \<open>
  C10 (as stated). The export has the full original column set and no internal-only
  derived column. This fails: for a file with the columns that the specification lists,
  the filtered export also has \<open>participants_numeric\<close>, which the load derives from
  \<open>size_mean\<close>, and \<open>location_label\<close>, which \<open>filter_data\<close> derives; the full
  export also has \<open>participants_numeric\<close>.
\<close>

theorem export_has_derived_columns_counterexample:
  "map_option columns (download_csv same_day_df (Some 1) ''filtered'' no_filter)
     = Some (csv_header @ [''participants_numeric'', ''location_label''])
   \<and> map_option columns (download_csv same_day_df (Some 1) ''full'' no_filter)
     = Some (csv_header @ [''participants_numeric''])
   \<and> ''location_label'' \<notin> set csv_header
   \<and> ''participants_numeric'' \<notin> set csv_header"
proof -
  have "map_option columns (download_csv same_day_df (Some 1) ''filtered'' no_filter)
     = Some (csv_header @ [''participants_numeric'', ''location_label''])"
    unfolding download_csv_def same_day_filtered
    by (simp add: csv_header_def)
  moreover have "map_option columns (download_csv same_day_df (Some 1) ''full'' no_filter)
     = Some (csv_header @ [''participants_numeric''])"
    by (simp add: download_csv_def same_day_df_def load_columns_def assign_col_def csv_header_def)
  ultimately show ?thesis
    by (simp add: csv_header_def)
qed

text \<open>
  C10 (amended). After a click, the columns of the export are the columns of the source
  file and the derived column \<open>participants_numeric\<close>, and for the filtered choice
  also the derived column \<open>location_label\<close> and the columns that \<open>filter_data\<close>
  requires; the only column removed is one named \<open>fallback\<close>.
\<close>

theorem export_columns:
  "map_option (\<lambda>e. set (columns e))
     (download_csv \<lparr>columns = load_columns header, rows = rs\<rparr> (Some (Suc n)) choice spec)
   = Some ((set header
            \<union> (if choice = ''full'' then {''participants_numeric''}
               else insert ''location_label'' (set required_cols)))
           - {''fallback''})"
proof (cases "choice = ''full''")
  case True
  then show ?thesis
    by (auto simp: download_csv_def Let_def load_columns_def set_assign_col)
next
  case False
  have "''participants_numeric'' \<in> set required_cols"
    by (simp add: required_cols_def)
  with False show ?thesis
    by (auto simp: download_csv_def Let_def columns_filter_data load_columns_def set_assign_col)
qed

end
